theory Spec2Isabelle
  imports Main "HOL-Library.Word"
begin

unbundle bit_operations_syntax

section \<open>Severity levels (logWriter/level.go)\<close>

text \<open>
  \<^verbatim>\<open>type Level uint32\<close>, with the four constants numbered by \<^verbatim>\<open>iota\<close> in the order
  Error, Warn, Info, Debug. Any other 32-bit value is a Level too.
\<close>

type_synonym Level = "32 word"

definition ErrorLevel :: Level where
  "ErrorLevel = 0"

definition WarnLevel :: Level where
  "WarnLevel = 1"

definition InfoLevel :: Level where
  "InfoLevel = 2"

definition DebugLevel :: Level where
  "DebugLevel = 3"

definition AllLevels :: "Level list" where
  "AllLevels = [ErrorLevel, WarnLevel, InfoLevel, DebugLevel]"

text \<open>\<^verbatim>\<open>func (level Level) String() string\<close>: the switch in the order of the source.\<close>

definition Level_String :: "Level \<Rightarrow> string" where
  "Level_String level =
     (if level = DebugLevel then ''debug''
      else if level = InfoLevel then ''info''
      else if level = WarnLevel then ''warning''
      else if level = ErrorLevel then ''error''
      else ''unknown'')"

text \<open>
  \<^verbatim>\<open>strings.ToLower\<close> of the Go library. A string is its sequence of bytes. When every
  byte is below \<^verbatim>\<open>utf8.RuneSelf\<close> (128) the bytes \<^verbatim>\<open>'A'..'Z'\<close> are shifted by
  \<^verbatim>\<open>'a' - 'A'\<close>; otherwise the library maps \<^verbatim>\<open>unicode.ToLower\<close> over the runes, which
  rests on the Unicode tables and is taken here as the parameter \<open>unicode_lower\<close>.
\<close>

definition isASCII :: "string \<Rightarrow> bool" where
  "isASCII s = list_all (\<lambda>c. of_char c < (128::nat)) s"

definition lower_byte :: "char \<Rightarrow> char" where
  "lower_byte c =
     (if (65::nat) \<le> of_char c \<and> of_char c \<le> (90::nat)
      then char_of (of_char c + (32::nat)) else c)"

definition ToLower :: "(string \<Rightarrow> string) \<Rightarrow> string \<Rightarrow> string" where
  "ToLower unicode_lower s =
     (if isASCII s then map lower_byte s else unicode_lower s)"

text \<open>
  The verb \<^verbatim>\<open>%q\<close> of \<^verbatim>\<open>fmt\<close>, that is \<^verbatim>\<open>strconv.Quote\<close>: the text between double
  quotes, with the double quote and the backslash escaped by a backslash, the printable
  ASCII bytes as they are, the control bytes as \<^verbatim>\<open>\a \b \f \n \r \t \v\<close> or as
  \<^verbatim>\<open>\x\<close> and two lower-case hexadecimal digits. For a text with a byte from 128 on the
  library decodes runes and consults the Unicode tables: the parameter \<open>quote_unicode\<close>.
\<close>

definition lowerhex :: "nat \<Rightarrow> char" where
  "lowerhex k = ''0123456789abcdef'' ! k"

definition quote_byte :: "char \<Rightarrow> string" where
  "quote_byte c =
     (let n = (of_char c :: nat) in
      if n = 34 \<or> n = 92 then [CHR 0x5C, c]
      else if 32 \<le> n \<and> n < 127 then [c]
      else if n = 7 then [CHR 0x5C, CHR ''a'']
      else if n = 8 then [CHR 0x5C, CHR ''b'']
      else if n = 12 then [CHR 0x5C, CHR ''f'']
      else if n = 10 then [CHR 0x5C, CHR ''n'']
      else if n = 13 then [CHR 0x5C, CHR ''r'']
      else if n = 9 then [CHR 0x5C, CHR ''t'']
      else if n = 11 then [CHR 0x5C, CHR ''v'']
      else [CHR 0x5C, CHR ''x'', lowerhex (n div 16), lowerhex (n mod 16)])"

definition Quote :: "(string \<Rightarrow> string) \<Rightarrow> string \<Rightarrow> string" where
  "Quote quote_unicode s =
     (if isASCII s then [CHR 0x22] @ concat (map quote_byte s) @ [CHR 0x22]
      else quote_unicode s)"

text \<open>
  \<^verbatim>\<open>func ParseLevel(lvl string) (Level, error)\<close>. Both results are returned, as in Go:
  on failure the level is the zero value of \<^verbatim>\<open>var l Level\<close> and the error is the message
  built by \<^verbatim>\<open>fmt.Errorf("not a valid logrus Level: %q", lvl)\<close>.
\<close>

definition ParseLevel ::
  "(string \<Rightarrow> string) \<Rightarrow> (string \<Rightarrow> string) \<Rightarrow> string \<Rightarrow> Level \<times> string option" where
  "ParseLevel unicode_lower quote_unicode lvl =
     (let t = ToLower unicode_lower lvl in
      if t = ''error'' then (ErrorLevel, None)
      else if t = ''warn'' \<or> t = ''warning'' then (WarnLevel, None)
      else if t = ''info'' then (InfoLevel, None)
      else if t = ''debug'' then (DebugLevel, None)
      else (0, Some (''not a valid logrus Level: '' @ Quote quote_unicode lvl)))"

text \<open>
  Matching with case ignored, said without any lower-casing: the two texts have the same
  length and, byte by byte, the same character or the two cases of one ASCII letter. The
  five names and the level each stands for are the table of the specification.
\<close>

definition same_letter :: "char \<Rightarrow> char \<Rightarrow> bool" where
  "same_letter a b =
     (a = b \<or>
      ((65::nat) \<le> of_char a \<and> of_char a \<le> (90::nat) \<and>
         of_char b = of_char a + (32::nat)) \<or>
      ((65::nat) \<le> of_char b \<and> of_char b \<le> (90::nat) \<and>
         of_char a = of_char b + (32::nat)))"

fun equal_fold :: "string \<Rightarrow> string \<Rightarrow> bool" where
  "equal_fold [] [] = True"
| "equal_fold (a # s) (b # t) = (same_letter a b \<and> equal_fold s t)"
| "equal_fold [] (b # t) = False"
| "equal_fold (a # s) [] = False"

definition level_names :: "string list" where
  "level_names = [''error'', ''warn'', ''warning'', ''info'', ''debug'']"

definition level_named :: "string \<Rightarrow> Level" where
  "level_named name =
     (if name = ''error'' then ErrorLevel
      else if name = ''warn'' \<or> name = ''warning'' then WarnLevel
      else if name = ''info'' then InfoLevel
      else DebugLevel)"

text \<open>
  A lower-casing of runes that agrees with \<^verbatim>\<open>unicode.ToLower\<close> on the ASCII runes and on
  U+0130, the capital I with a dot above, whose lower case in the Unicode tables is the
  ASCII letter i; U+0130 is the two bytes C4 B0 in UTF-8. Every other rune is left as it
  is, so this stands for the library only on texts made of those runes.
\<close>

fun lower_dotted :: "string \<Rightarrow> string" where
  "lower_dotted (a # b # rest) =
     (if a = CHR 0xC4 \<and> b = CHR 0xB0 then CHR ''i'' # lower_dotted rest
      else lower_byte a # lower_dotted (b # rest))"
| "lower_dotted [a] = [lower_byte a]"
| "lower_dotted [] = []"

text \<open>
  A quoting that agrees with \<^verbatim>\<open>strconv.Quote\<close> on texts of printable runes with no
  double quote and no backslash: the text between double quotes.
\<close>

definition quote_printable :: "string \<Rightarrow> string" where
  "quote_printable s = [CHR 0x22] @ s @ [CHR 0x22]"

section \<open>Entries (logWriter/entry.go)\<close>

text \<open>
  A message is a Go \<^verbatim>\<open>interface{}\<close>. The values that reach it are atoms and slices of
  values (the variadic arguments of the facade arrive as \<^verbatim>\<open>[]interface{}\<close>).
\<close>

datatype iface = NilV | StrV string | IntV int | SliceV "iface list"

record Entry =
  level :: Level
  message :: iface
  format :: string

definition NewEntry :: "Level \<Rightarrow> iface \<Rightarrow> Entry" where
  "NewEntry lvl msg = \<lparr>level = lvl, message = msg, format = []\<rparr>"

definition NewFormattedEntry :: "Level \<Rightarrow> string \<Rightarrow> iface \<Rightarrow> Entry" where
  "NewFormattedEntry lvl fmt msg = \<lparr>level = lvl, message = msg, format = fmt\<rparr>"

section \<open>What a call can do\<close>

text \<open>
  A call returns, panics (a slice expression out of range is a run-time panic in Go), or
  blocks for ever on a mutex that is held or on a channel.
\<close>

datatype 'a outcome = Returned 'a | Panic | Blocked

fun and_then :: "'a outcome \<Rightarrow> ('a \<Rightarrow> 'b outcome) \<Rightarrow> 'b outcome" where
  "and_then (Returned x) f = f x"
| "and_then Panic f = Panic"
| "and_then Blocked f = Blocked"

section \<open>The environment of the worker\<close>

text \<open>
  The worker talks to the file system and reads the clock. Each flush that reaches the
  file gets one answer of the file system: \<^verbatim>\<open>os.Stat\<close> on the file's name fails, or it
  succeeds and \<^verbatim>\<open>fileRoot.Write\<close> writes everything, or it succeeds and the write
  returns an error after having written some bytes. The answers are indexed by the number
  of flushes that asked before; the times by the number of lines rendered before.
  \<^verbatim>\<open>fmt.Sprintf\<close> and \<^verbatim>\<open>fmt.Sprintln\<close> are library code, taken as they come;
  \<open>callerFile\<close> is the path of writer.go that \<^verbatim>\<open>runtime.Caller\<close> reports,
  \<open>UTC\<close> the library's conversion of a time to universal time.
\<close>

datatype disk = StatFails | WriteSucceeds | WriteFails nat string

record Time =
  year :: nat
  month :: nat
  day :: nat
  hour :: nat
  minute :: nat
  second :: nat
  nanosecond :: nat

record env =
  answer :: "nat \<Rightarrow> disk"
  now :: "nat \<Rightarrow> Time"
  Sprintf :: "string \<Rightarrow> iface list \<Rightarrow> string"
  Sprintln :: "iface list \<Rightarrow> string"
  callerFile :: string
  UTC :: "Time \<Rightarrow> Time"

section \<open>The worker (logWriter/writer.go)\<close>

text \<open>
  The fields of \<^verbatim>\<open>Worker\<close> that the operations read or write. \<open>fileRoot\<close> is the
  sequence of bytes written to the file so far; \<open>position\<close> is a Go \<^verbatim>\<open>int\<close>, an
  integer here (it never leaves the range of 64 bits: an append adds the length of a slice
  to a position that is at most the capacity, or panics); \<open>lock\<close> is true while the
  mutex is held; \<open>once\<close>, \<open>doneCh\<close> and \<open>quitTimer\<close> are true once \<^verbatim>\<open>once.Do\<close> has run
  and the two channels are closed. \<open>errorCallback\<close> counts the calls of the user's
  callback, whose effect on the worker is not interpreted. \<open>asked\<close> and \<open>printed\<close>
  count the flushes that reached the file system and the lines rendered: they index the
  environment and nothing else reads them.
\<close>

record Worker =
  once :: bool
  fileRoot :: string
  buffer :: string
  position :: int
  channel :: "Entry list"
  lock :: bool
  quitTimer :: bool
  doneCh :: bool
  errorCallback :: nat
  asked :: nat
  printed :: nat

definition capacity :: int where
  "capacity = 32768"

definition Ldate :: int where "Ldate = 1"
definition Ltime :: int where "Ltime = 2"
definition Lmicroseconds :: int where "Lmicroseconds = 4"
definition Llongfile :: int where "Llongfile = 8"
definition Lshortfile :: int where "Lshortfile = 16"
definition LUTC :: int where "LUTC = 32"
definition Lmsgprefix :: int where "Lmsgprefix = 64"
definition LstdFlags :: int where "LstdFlags = Ldate OR Ltime"

definition defaultLogFlag :: int where
  "defaultLogFlag = LstdFlags OR Lmicroseconds OR Lshortfile"

text \<open>\<^verbatim>\<open>NewWorker\<close>: \<^verbatim>\<open>make([]byte, capacity)\<close> is a buffer of zero bytes.\<close>

definition NewWorker :: "Entry list \<Rightarrow> Worker" where
  "NewWorker ch =
     \<lparr>once = False, fileRoot = [], buffer = replicate (nat capacity) (CHR 0x00),
      position = 0, channel = ch, lock = False, quitTimer = False, doneCh = False,
      errorCallback = 0, asked = 0, printed = 0\<rparr>"

definition call_errorCallback :: "Worker \<Rightarrow> Worker" where
  "call_errorCallback w = w\<lparr>errorCallback := errorCallback w + 1\<rparr>"

text \<open>
  \<^verbatim>\<open>w.buffer[lo:hi]\<close> panics unless \<^verbatim>\<open>0 <= lo <= hi <= cap(w.buffer)\<close>; the buffer
  is never resliced, so its capacity is its length.
\<close>

definition slice_ok :: "string \<Rightarrow> int \<Rightarrow> int \<Rightarrow> bool" where
  "slice_ok b lo hi = (0 \<le> lo \<and> lo \<le> hi \<and> hi \<le> int (length b))"

text \<open>
  \<^verbatim>\<open>copy(b[pos:], data)\<close> copies \<^verbatim>\<open>min(len(b) - pos, len(data))\<close> bytes and leaves
  the rest of \<open>b\<close> as it was.
\<close>

definition copy_at :: "string \<Rightarrow> nat \<Rightarrow> string \<Rightarrow> string" where
  "copy_at b pos data =
     take pos b @ take (length b - pos) data @ drop (pos + length data) b"

text \<open>
  \<^verbatim>\<open>func (w *Worker) save() (n int, err error)\<close>. The named results start as
  \<^verbatim>\<open>0, nil\<close>, and that is what the branch of the missing file returns. The file
  system is asked first (\<^verbatim>\<open>fileExists\<close>), then the slice is taken, then the write is
  made.
\<close>

definition save :: "env \<Rightarrow> Worker \<Rightarrow> (Worker \<times> int \<times> string option) outcome" where
  "save e w =
     (if position w = 0 then Returned (w, 0, None)
      else
        let a = answer e (asked w);
            w1 = w\<lparr>asked := asked w + 1\<rparr>
        in case a of
             StatFails \<Rightarrow> Returned (call_errorCallback w1, 0, None)
           | WriteSucceeds \<Rightarrow>
               if slice_ok (buffer w1) 0 (position w1)
               then Returned
                      (w1\<lparr>fileRoot := fileRoot w1 @ take (nat (position w1)) (buffer w1),
                          position := 0\<rparr>,
                       position w1, None)
               else Panic
           | WriteFails k msg \<Rightarrow>
               if slice_ok (buffer w1) 0 (position w1)
               then Returned
                      (w1\<lparr>fileRoot :=
                            fileRoot w1 @ take (min k (nat (position w1))) (buffer w1)\<rparr>,
                       int (min k (nat (position w1))), Some msg)
               else Panic)"

text \<open>
  \<^verbatim>\<open>func (w *Worker) Write(data []byte) (n int, err error)\<close>. The branch that returns
  the error of \<open>save\<close> leaves the mutex locked, as the source does.
\<close>

definition Write :: "env \<Rightarrow> Worker \<Rightarrow> string \<Rightarrow> (Worker \<times> int \<times> string option) outcome" where
  "Write e w data =
     (let len = int (length data) in
      if lock w then Blocked
      else
        and_then
          (if len + position w > capacity then save e (w\<lparr>lock := True\<rparr>)
           else Returned (w\<lparr>lock := True\<rparr>, 0, None))
          (\<lambda>(w1, n, err).
             if err \<noteq> None then Returned (call_errorCallback w1, n, err)
             else if slice_ok (buffer w1) (position w1) (int (length (buffer w1)))
             then Returned
                    (w1\<lparr>buffer := copy_at (buffer w1) (nat (position w1)) data,
                        position := position w1 + len,
                        lock := False\<rparr>,
                     n, err)
             else Panic))"

text \<open>
  One turn of the timer's loop in \<^verbatim>\<open>doTimerJob\<close>: the tick is taken unless the quit
  channel is closed.
\<close>

definition timerTick :: "env \<Rightarrow> Worker \<Rightarrow> Worker outcome" where
  "timerTick e w =
     (if quitTimer w then Returned w
      else if lock w then Blocked
      else
        and_then (save e (w\<lparr>lock := True\<rparr>))
          (\<lambda>(w1, n, err).
             Returned ((if err \<noteq> None then call_errorCallback w1 else w1)\<lparr>lock := False\<rparr>)))"

section \<open>Rendering a line (the \<^verbatim>\<open>log\<close> package of the Go library)\<close>

text \<open>
  \<^verbatim>\<open>itoa(buf, i, wid)\<close>: the decimal digits of \<open>i\<close>, padded with zeros to the width
  \<open>wid\<close>; a width below 2 pads nothing.
\<close>

function itoa :: "nat \<Rightarrow> int \<Rightarrow> string" where
  "itoa i wid =
     (if 10 \<le> i \<or> 1 < wid then itoa (i div 10) (wid - 1) @ [char_of (48 + i mod 10)]
      else [char_of (48 + i)])"
  by pat_completeness auto
termination
  by (relation "measure (\<lambda>(i, wid). i + nat wid)") auto

declare itoa.simps [simp del]

text \<open>
  The short file name of \<^verbatim>\<open>Lshortfile\<close>: the loop runs from the last index down to 1
  and cuts after the first \<^verbatim>\<open>'/'\<close> it meets.
\<close>

fun short_from :: "string \<Rightarrow> nat \<Rightarrow> string" where
  "short_from file i =
     (if 0 < i
      then (if file ! i = CHR ''/'' then drop (i + 1) file else short_from file (i - 1))
      else file)"

declare short_from.simps [simp del]

definition short :: "string \<Rightarrow> string" where
  "short file = short_from file (length file - 1)"

text \<open>
  \<^verbatim>\<open>formatHeader\<close>: prefix, date, time, file and line, each under its flag. The time is
  the local time unless \<^verbatim>\<open>LUTC\<close> is set; \<open>utc\<close> is the library's conversion.
\<close>

definition formatHeader ::
  "(Time \<Rightarrow> Time) \<Rightarrow> string \<Rightarrow> int \<Rightarrow> Time \<Rightarrow> string \<Rightarrow> nat \<Rightarrow> string" where
  "formatHeader utc prefix flag t0 file line =
     (if flag AND Lmsgprefix = 0 then prefix else []) @
     (if flag AND (Ldate OR Ltime OR Lmicroseconds) \<noteq> 0
      then
        (let t = (if flag AND LUTC \<noteq> 0 then utc t0 else t0) in
         (if flag AND Ldate \<noteq> 0
          then itoa (year t) 4 @ ''/'' @ itoa (month t) 2 @ ''/'' @ itoa (day t) 2 @ '' ''
          else []) @
         (if flag AND (Ltime OR Lmicroseconds) \<noteq> 0
          then itoa (hour t) 2 @ '':'' @ itoa (minute t) 2 @ '':'' @ itoa (second t) 2 @
               (if flag AND Lmicroseconds \<noteq> 0
                then ''.'' @ itoa (nanosecond t div 1000) 6 else []) @
               '' ''
          else []))
      else []) @
     (if flag AND (Lshortfile OR Llongfile) \<noteq> 0
      then (if flag AND Lshortfile \<noteq> 0 then short file else file) @
           '':'' @ itoa line (- 1) @ '': ''
      else []) @
     (if flag AND Lmsgprefix \<noteq> 0 then prefix else [])"

text \<open>
  \<^verbatim>\<open>(*Logger).Output\<close>: the header, the text, and a newline unless the text ends with
  one. These are the bytes handed to the \<^verbatim>\<open>Write\<close> of the logger's writer.
\<close>

definition line_bytes ::
  "(Time \<Rightarrow> Time) \<Rightarrow> string \<times> int \<Rightarrow> Time \<Rightarrow> string \<Rightarrow> nat \<Rightarrow> string \<Rightarrow> string" where
  "line_bytes utc handle t file line s =
     formatHeader utc (fst handle) (snd handle) t file line @ s @
     (if length s = 0 \<or> last s \<noteq> CHR 0x0A then [CHR 0x0A] else [])"

section \<open>The worker renders and drains (logWriter/writer.go)\<close>

text \<open>
  The four handles as \<^verbatim>\<open>createLogHandles\<close> makes them: a prefix and the flags; each
  writes to the worker. Nothing in the repository changes them afterwards.
\<close>

definition Info :: "string \<times> int" where
  "Info = (''[INFO]  '', defaultLogFlag)"

definition Warning :: "string \<times> int" where
  "Warning = (''[WARN]  '', defaultLogFlag)"

definition Error :: "string \<times> int" where
  "Error = (''[ERROR] '', defaultLogFlag)"

definition Debug :: "string \<times> int" where
  "Debug = (''[DEBUG] '', defaultLogFlag)"

text \<open>
  \<^verbatim>\<open>handle.Printf\<close> and \<^verbatim>\<open>handle.Println\<close> called at a line of writer.go. The
  library reads the clock, asks \<^verbatim>\<open>runtime.Caller\<close> for the place of the call, and
  hands the line to \<^verbatim>\<open>Worker.Write\<close>, whose results it drops.
\<close>

definition Output :: "env \<Rightarrow> Worker \<Rightarrow> string \<times> int \<Rightarrow> nat \<Rightarrow> string \<Rightarrow> Worker outcome" where
  "Output e w handle line s =
     and_then
       (Write e (w\<lparr>printed := printed w + 1\<rparr>)
          (line_bytes (UTC e) handle (now e (printed w)) (callerFile e) line s))
       (\<lambda>(w1, n, err). Returned w1)"

definition Printf ::
  "env \<Rightarrow> Worker \<Rightarrow> string \<times> int \<Rightarrow> nat \<Rightarrow> string \<Rightarrow> iface \<Rightarrow> Worker outcome" where
  "Printf e w handle line fmt v = Output e w handle line (Sprintf e fmt [v])"

definition Println ::
  "env \<Rightarrow> Worker \<Rightarrow> string \<times> int \<Rightarrow> nat \<Rightarrow> iface \<Rightarrow> Worker outcome" where
  "Println e w handle line v = Output e w handle line (Sprintln e [v])"

text \<open>
  \<^verbatim>\<open>writeToBuffer\<close>: the switch on the level in the order of the source, each call with
  its line of writer.go. A level that is none of the four matches no case.
\<close>

definition writeToBuffer :: "env \<Rightarrow> Worker \<Rightarrow> Entry \<Rightarrow> Worker outcome" where
  "writeToBuffer e w event =
     (if level event = WarnLevel
      then (if 0 < length (format event)
            then Printf e w Warning 137 (format event) (message event)
            else Println e w Warning 139 (message event))
      else if level event = InfoLevel
      then (if 0 < length (format event)
            then Printf e w Info 143 (format event) (message event)
            else Println e w Info 145 (message event))
      else if level event = DebugLevel
      then (if 0 < length (format event)
            then Printf e w Debug 149 (format event) (message event)
            else Println e w Debug 151 (message event))
      else if level event = ErrorLevel
      then (if 0 < length (format event)
            then Printf e w Error 155 (format event) (message event)
            else Println e w Error 157 (message event))
      else Returned w)"

text \<open>\<^verbatim>\<open>w.lock.Lock(); w.save(); w.lock.Unlock()\<close>, the results of save dropped.\<close>

definition save_locked :: "env \<Rightarrow> Worker \<Rightarrow> Worker outcome" where
  "save_locked e w =
     (if lock w then Blocked
      else and_then (save e (w\<lparr>lock := True\<rparr>)) (\<lambda>(w1, n, err). Returned (w1\<lparr>lock := False\<rparr>)))"

text \<open>
  The loop of \<^verbatim>\<open>CloseWorker\<close>: \<open>n\<close> receives from the channel, each entry rendered.
  A receive from an empty channel blocks.
\<close>

fun drain :: "env \<Rightarrow> Worker \<Rightarrow> nat \<Rightarrow> Worker outcome" where
  "drain e w 0 = Returned w"
| "drain e w (Suc n) =
     (case channel w of
        [] \<Rightarrow> Blocked
      | event # rest \<Rightarrow> and_then (writeToBuffer e (w\<lparr>channel := rest\<rparr>) event) (\<lambda>w1. drain e w1 n))"

text \<open>
  \<^verbatim>\<open>CloseWorker\<close>: the body runs once. The operations of this theory run one after
  another; while close runs, the processing loop and the producers are taken to leave the
  channel alone, so the \<^verbatim>\<open>len(w.channel)\<close> entries counted are the ones received.
\<close>

definition CloseWorker :: "env \<Rightarrow> Worker \<Rightarrow> Worker outcome" where
  "CloseWorker e w =
     (if once w then Returned w
      else
        and_then (save_locked e (w\<lparr>once := True, doneCh := True, quitTimer := True\<rparr>))
          (\<lambda>w1. and_then (drain e w1 (length (channel w1))) (\<lambda>w2. save_locked e w2)))"

section \<open>The facade (logger/logger.go, utils)\<close>

record TAtomBool =
  Flag :: "32 word"

definition Get :: "TAtomBool \<Rightarrow> bool" where
  "Get b = (if Flag b \<noteq> 0 then True else False)"

text \<open>
  The fields of \<^verbatim>\<open>Logger\<close> that logging reads or writes. \<open>channel\<close> is the content of
  the channel made by \<^verbatim>\<open>make(chan logWriter.Entry, 2048)\<close>, oldest entry first;
  \<open>stopCh\<close> is true once the stop channel is closed.
\<close>

record Logger =
  logLevel :: Level
  status :: TAtomBool
  channel :: "Entry list"
  stopCh :: bool

definition isLoggable :: "Logger \<Rightarrow> Level \<Rightarrow> bool" where
  "isLoggable logger lvl = (Get (status logger) = True \<and> lvl \<le> logLevel logger)"

text \<open>\<^verbatim>\<open>logger.channel <- entry\<close>: a send on a full channel blocks.\<close>

definition send :: "Logger \<Rightarrow> Entry \<Rightarrow> Logger outcome" where
  "send logger entry =
     (if length (channel logger) < 2048
      then Returned (logger\<lparr>channel := channel logger @ [entry]\<rparr>)
      else Blocked)"

text \<open>
  \<^verbatim>\<open>logEntry\<close> and \<^verbatim>\<open>logFormattedEntry\<close>. The variadic \<^verbatim>\<open>args\<close> is a slice, and it
  is the slice that becomes the entry's message.
\<close>

definition logEntry :: "Logger \<Rightarrow> Level \<Rightarrow> iface list \<Rightarrow> Logger outcome" where
  "logEntry logger lvl args =
     (if stopCh logger then Returned logger
      else send logger (NewEntry lvl (SliceV args)))"

definition logFormattedEntry ::
  "Logger \<Rightarrow> Level \<Rightarrow> string \<Rightarrow> iface list \<Rightarrow> Logger outcome" where
  "logFormattedEntry logger lvl fmt args =
     (if stopCh logger then Returned logger
      else send logger (NewFormattedEntry DebugLevel fmt (SliceV args)))"

text \<open>
  The four formatted calls. Each passes its own slice \<^verbatim>\<open>args\<close> as the single variadic
  argument of \<^verbatim>\<open>logFormattedEntry\<close>.
\<close>

definition Debugf :: "Logger \<Rightarrow> string \<Rightarrow> iface list \<Rightarrow> Logger outcome" where
  "Debugf logger fmt args =
     (if isLoggable logger DebugLevel
      then logFormattedEntry logger DebugLevel fmt [SliceV args]
      else Returned logger)"

definition Infof :: "Logger \<Rightarrow> string \<Rightarrow> iface list \<Rightarrow> Logger outcome" where
  "Infof logger fmt args =
     (if isLoggable logger InfoLevel
      then logFormattedEntry logger InfoLevel fmt [SliceV args]
      else Returned logger)"

definition Warnf :: "Logger \<Rightarrow> string \<Rightarrow> iface list \<Rightarrow> Logger outcome" where
  "Warnf logger fmt args =
     (if isLoggable logger WarnLevel
      then logFormattedEntry logger WarnLevel fmt [SliceV args]
      else Returned logger)"

definition Errorf :: "Logger \<Rightarrow> string \<Rightarrow> iface list \<Rightarrow> Logger outcome" where
  "Errorf logger fmt args =
     (if isLoggable logger ErrorLevel
      then logFormattedEntry logger ErrorLevel fmt [SliceV args]
      else Returned logger)"

section \<open>Concrete environments and inputs\<close>

text \<open>
  Environments used to run the definitions on concrete inputs: the clock stands at
  2020/01/02 03:04:05.000006, the formatting functions print a string argument as it is
  (\<open>Sprintln\<close> adds the newline), and the file system always writes (\<open>env_ok\<close>), has
  lost the file (\<open>env_missing\<close>), or fails every write (\<open>env_full\<close>).
\<close>

definition clock0 :: Time where
  "clock0 = \<lparr>year = 2020, month = 1, day = 2, hour = 3, minute = 4, second = 5,
             nanosecond = 6789\<rparr>"

fun plain :: "iface list \<Rightarrow> string" where
  "plain (StrV s # vs) = s @ plain vs"
| "plain (v # vs) = plain vs"
| "plain [] = []"

definition env_with :: "(nat \<Rightarrow> disk) \<Rightarrow> env" where
  "env_with d =
     \<lparr>answer = d, now = (\<lambda>i. clock0), Sprintf = (\<lambda>f vs. plain vs),
      Sprintln = (\<lambda>vs. plain vs @ [CHR 0x0A]),
      callerFile = ''/go/src/github.com/shyamgrover/go-lite-logger/logWriter/writer.go'',
      UTC = (\<lambda>t. t)\<rparr>"

definition env_ok :: env where
  "env_ok = env_with (\<lambda>i. WriteSucceeds)"

definition env_missing :: env where
  "env_missing = env_with (\<lambda>i. StatFails)"

definition env_full :: env where
  "env_full = env_with (\<lambda>i. WriteFails 0 ''no space left on device'')"

text \<open>The first write to the file fails, every later one succeeds.\<close>

definition env_first_write_fails :: env where
  "env_first_write_fails =
     env_with (\<lambda>i. if i = 0 then WriteFails 0 ''input/output error'' else WriteSucceeds)"

section \<open>The line of an entry, spelled out\<close>

text \<open>
  The claim's parts of a rendered line: the severity tag, and the standard time stamp with
  microseconds, \<^verbatim>\<open>2006/01/02 15:04:05.000000\<close> and a blank.
\<close>

definition severity_prefix :: "Level \<Rightarrow> string" where
  "severity_prefix l =
     (if l = InfoLevel then ''[INFO]  ''
      else if l = WarnLevel then ''[WARN]  ''
      else if l = ErrorLevel then ''[ERROR] ''
      else ''[DEBUG] '')"

definition stamp :: "Time \<Rightarrow> string" where
  "stamp t =
     itoa (year t) 4 @ ''/'' @ itoa (month t) 2 @ ''/'' @ itoa (day t) 2 @ '' '' @
     itoa (hour t) 2 @ '':'' @ itoa (minute t) 2 @ '':'' @ itoa (second t) 2 @
     ''.'' @ itoa (nanosecond t div 1000) 6 @ '' ''"

text \<open>The line as the claim has it: tag, stamp, message, newline.\<close>

definition claimed_line :: "Level \<Rightarrow> Time \<Rightarrow> string \<Rightarrow> string" where
  "claimed_line l t msg = severity_prefix l @ stamp t @ msg @ [CHR 0x0A]"

text \<open>
  The line as the amended claim has it. \<open>text_of\<close> is the message as the formatting
  functions print it, \<open>call_line\<close> the line of writer.go on which \<open>writeToBuffer\<close>
  calls the handle for this entry.
\<close>

definition text_of :: "env \<Rightarrow> Entry \<Rightarrow> string" where
  "text_of e ev =
     (if 0 < length (format ev) then Sprintf e (format ev) [message ev]
      else Sprintln e [message ev])"

definition call_line :: "Entry \<Rightarrow> nat" where
  "call_line ev =
     (if level ev = WarnLevel then (if 0 < length (format ev) then 137 else 139)
      else if level ev = InfoLevel then (if 0 < length (format ev) then 143 else 145)
      else if level ev = DebugLevel then (if 0 < length (format ev) then 149 else 151)
      else (if 0 < length (format ev) then 155 else 157))"

definition rendered :: "env \<Rightarrow> nat \<Rightarrow> Entry \<Rightarrow> string" where
  "rendered e k ev =
     severity_prefix (level ev) @ stamp (now e k) @
     short (callerFile e) @ '':'' @ itoa (call_line ev) (- 1) @ '': '' @
     text_of e ev @
     (if text_of e ev = [] \<or> last (text_of e ev) \<noteq> CHR 0x0A then [CHR 0x0A] else [])"

section \<open>What close has to write\<close>

text \<open>
  The lines of the entries of a queue, in the order of the queue, the first of them
  rendered with the \<open>k\<close>-th reading of the clock. An entry whose level is none of the
  four has no line: \<open>writeToBuffer\<close> skips it and reads no clock.
\<close>

fun lines_of :: "env \<Rightarrow> nat \<Rightarrow> Entry list \<Rightarrow> string list" where
  "lines_of e k [] = []"
| "lines_of e k (ev # evs) =
     (if level ev \<in> set AllLevels then rendered e k ev # lines_of e (k + 1) evs
      else lines_of e k evs)"

text \<open>The bytes a worker has taken and not lost: the file, then the buffer up to the cursor.\<close>

definition pending :: "Worker \<Rightarrow> string" where
  "pending w = fileRoot w @ take (nat (position w)) (buffer w)"

definition in_range :: "Worker \<Rightarrow> bool" where
  "in_range w = (0 \<le> position w \<and> position w \<le> capacity)"

definition unlocked_full_size :: "Worker \<Rightarrow> bool" where
  "unlocked_full_size w = (\<not> lock w \<and> int (length (buffer w)) = capacity)"

section \<open>Properties of the levels\<close>

lemma ToLower_names:
  "ToLower ul ''error'' = ''error''"
  "ToLower ul ''warn'' = ''warn''"
  "ToLower ul ''warning'' = ''warning''"
  "ToLower ul ''info'' = ''info''"
  "ToLower ul ''debug'' = ''debug''"
  by (simp_all add: ToLower_def isASCII_def lower_byte_def)

lemma of_char_lower_byte:
  "(of_char (lower_byte c) :: nat) =
     (if 65 \<le> (of_char c :: nat) \<and> (of_char c :: nat) \<le> 90 then of_char c + 32
      else of_char c)"
  by (simp add: lower_byte_def)

lemma lower_byte_eq_iff: "lower_byte a = lower_byte b \<longleftrightarrow> same_letter a b"
proof -
  have "lower_byte a = lower_byte b \<longleftrightarrow>
      (of_char (lower_byte a) :: nat) = of_char (lower_byte b)"
    by simp
  also have "\<dots> \<longleftrightarrow> same_letter a b"
    unfolding of_char_lower_byte same_letter_def
    by (auto simp add: of_char_eq_iff [where ?'a = nat, symmetric] simp del: of_char_eq_iff)
  finally show ?thesis .
qed

lemma map_lower_byte_eq_iff: "map lower_byte s = map lower_byte t \<longleftrightarrow> equal_fold s t"
  by (induction s t rule: equal_fold.induct) (simp_all add: lower_byte_eq_iff)

lemma lower_names:
  "name \<in> set level_names \<Longrightarrow> map lower_byte name = name"
  by (auto simp add: level_names_def lower_byte_def)

text \<open>On ASCII text, lower-casing gives a name exactly when the text is the name up to case.\<close>

lemma ToLower_ascii_name:
  assumes "isASCII s" "name \<in> set level_names"
  shows "ToLower ul s = name \<longleftrightarrow> equal_fold s name"
proof -
  have "ToLower ul s = name \<longleftrightarrow> map lower_byte s = map lower_byte name"
    using assms by (simp add: ToLower_def lower_names)
  then show ?thesis
    by (simp add: map_lower_byte_eq_iff)
qed

lemma ParseLevel_by_lowered:
  "ParseLevel ul qu s =
     (if ToLower ul s \<in> set level_names then (level_named (ToLower ul s), None)
      else (0, Some (''not a valid logrus Level: '' @ Quote qu s)))"
  by (simp add: ParseLevel_def Let_def level_names_def level_named_def)

text \<open>
  C9, as amended. For each of the four levels, parsing the level's own name succeeds and
  gives the level back. For a text of ASCII bytes: if it is one of "error", "warn",
  "warning", "info", "debug" up to the case of its letters, parsing gives that name's
  level and no error; if it is none of them, parsing fails, the level returned is the zero
  value and the error is the "not a valid ... Level" message followed by the text between
  double quotes, escaped as \<^verbatim>\<open>%q\<close> does. For a text with a byte from 128 on, what is
  compared with the five names is the library's Unicode lower-casing of the text: parsing
  succeeds when that is one of the names and fails with the same message otherwise.
\<close>

theorem ParseLevel_roundtrip_and_ascii_reject:
  "(\<forall>l \<in> set AllLevels. ParseLevel ul qu (Level_String l) = (l, None)) \<and>
   (isASCII s \<longrightarrow>
      (\<forall>name \<in> set level_names.
         equal_fold s name \<longrightarrow> ParseLevel ul qu s = (level_named name, None)) \<and>
      ((\<forall>name \<in> set level_names. \<not> equal_fold s name) \<longrightarrow>
         ParseLevel ul qu s =
           (0, Some (''not a valid logrus Level: '' @
                     [CHR 0x22] @ concat (map quote_byte s) @ [CHR 0x22])))) \<and>
   (\<not> isASCII s \<longrightarrow>
      ParseLevel ul qu s =
        (if ul s \<in> set level_names then (level_named (ul s), None)
         else (0, Some (''not a valid logrus Level: '' @ qu s))))"
proof (intro conjI impI ballI)
  fix l :: Level
  assume "l \<in> set AllLevels"
  then show "ParseLevel ul qu (Level_String l) = (l, None)"
    by (auto simp add: AllLevels_def ParseLevel_def Level_String_def ToLower_names
        ErrorLevel_def WarnLevel_def InfoLevel_def DebugLevel_def)
next
  fix name
  assume "isASCII s" "name \<in> set level_names" "equal_fold s name"
  then have "ToLower ul s = name"
    by (simp add: ToLower_ascii_name)
  with \<open>name \<in> set level_names\<close> show "ParseLevel ul qu s = (level_named name, None)"
    by (simp add: ParseLevel_by_lowered)
next
  assume a: "isASCII s" and n: "\<forall>name \<in> set level_names. \<not> equal_fold s name"
  have "ToLower ul s \<notin> set level_names"
  proof
    assume m: "ToLower ul s \<in> set level_names"
    then have "equal_fold s (ToLower ul s)"
      using ToLower_ascii_name [OF a m, of ul] by simp
    with n m show False by blast
  qed
  with a show "ParseLevel ul qu s =
      (0, Some (''not a valid logrus Level: '' @
                [CHR 0x22] @ concat (map quote_byte s) @ [CHR 0x22]))"
    by (simp add: ParseLevel_by_lowered Quote_def)
next
  assume "\<not> isASCII s"
  then show "ParseLevel ul qu s =
      (if ul s \<in> set level_names then (level_named (ul s), None)
       else (0, Some (''not a valid logrus Level: '' @ qu s)))"
    by (simp add: ParseLevel_by_lowered ToLower_def Quote_def)
qed

theorem ParseLevel_roundtrip_and_ascii_reject_witness:
  "ParseLevel lower_dotted quote_printable (Level_String WarnLevel) = (WarnLevel, None) \<and>
   ParseLevel lower_dotted quote_printable ''WaRn'' = (WarnLevel, None) \<and>
   ParseLevel lower_dotted quote_printable ''Verbose'' =
     (0, Some (''not a valid logrus Level: '' @ [CHR 0x22] @ ''Verbose'' @ [CHR 0x22])) \<and>
   ParseLevel lower_dotted quote_printable [CHR 0xC3, CHR 0xA9] =
     (0, Some (''not a valid logrus Level: '' @
               [CHR 0x22] @ [CHR 0xC3, CHR 0xA9] @ [CHR 0x22]))"
proof -
  note t = ParseLevel_roundtrip_and_ascii_reject [of lower_dotted quote_printable]
  have "ParseLevel lower_dotted quote_printable (Level_String WarnLevel) = (WarnLevel, None)"
    using t [of "[]"] by (simp add: AllLevels_def)
  moreover have "ParseLevel lower_dotted quote_printable ''WaRn'' = (WarnLevel, None)"
    using t [of "''WaRn''"]
    by (simp add: isASCII_def level_names_def same_letter_def level_named_def)
  moreover have "ParseLevel lower_dotted quote_printable ''Verbose'' =
     (0, Some (''not a valid logrus Level: '' @ [CHR 0x22] @ ''Verbose'' @ [CHR 0x22]))"
    using t [of "''Verbose''"]
    by (simp add: isASCII_def level_names_def same_letter_def quote_byte_def)
  moreover have "ParseLevel lower_dotted quote_printable [CHR 0xC3, CHR 0xA9] =
     (0, Some (''not a valid logrus Level: '' @
               [CHR 0x22] @ [CHR 0xC3, CHR 0xA9] @ [CHR 0x22]))"
    using t [of "[CHR 0xC3, CHR 0xA9]"]
    by (simp add: isASCII_def level_names_def lower_byte_def quote_printable_def)
  ultimately show ?thesis by simp
qed

text \<open>
  C9, as stated, fails. The text of the five bytes C4 B0 4E 46 4F, a capital I with a dot
  above followed by NFO, matches none of the five names when case is ignored: it is longer
  than "info" by one byte, and its first rune is no case of the letter i. Yet its
  lower-casing is "info", and parsing it succeeds with the level Info.
\<close>

theorem ParseLevel_accepts_dotted_capital_I:
  "ParseLevel lower_dotted quote_printable (CHR 0xC4 # CHR 0xB0 # ''NFO'') =
     (InfoLevel, None) \<and>
   list_all (\<lambda>name. \<not> equal_fold (CHR 0xC4 # CHR 0xB0 # ''NFO'') name) level_names"
  by (simp add: ParseLevel_def ToLower_def isASCII_def lower_byte_def level_names_def
      same_letter_def char_of_def bit_Suc_0_iff)

section \<open>Properties of the facade\<close>

text \<open>
  C7. The formatted-entry path ignores the level it is called with: whatever the level, the
  entry it sends is the one built with DebugLevel. So a loggable Debugf, Infof, Warnf or
  Errorf on a logger that is not stopped and whose channel has room appends an entry
  tagged Debug.
\<close>

theorem formatted_entries_are_tagged_Debug:
  "logFormattedEntry logger lvl fmt args = logFormattedEntry logger DebugLevel fmt args \<and>
   (\<not> stopCh logger \<and> length (channel logger) < 2048 \<longrightarrow>
      logFormattedEntry logger lvl fmt args =
        Returned (logger\<lparr>channel := channel logger @
          [\<lparr>level = DebugLevel, message = SliceV args, format = fmt\<rparr>]\<rparr>) \<and>
      (\<forall>(f, l) \<in> set [(Debugf, DebugLevel), (Infof, InfoLevel),
                       (Warnf, WarnLevel), (Errorf, ErrorLevel)].
         isLoggable logger l \<longrightarrow>
         f logger fmt args =
           Returned (logger\<lparr>channel := channel logger @
             [\<lparr>level = DebugLevel, message = SliceV [SliceV args], format = fmt\<rparr>]\<rparr>)))"
  by (simp add: logFormattedEntry_def send_def NewFormattedEntry_def
      Debugf_def Infof_def Warnf_def Errorf_def)

theorem formatted_entries_are_tagged_Debug_witness:
  "Errorf \<lparr>logLevel = InfoLevel, status = \<lparr>Flag = 1\<rparr>, channel = [], stopCh = False\<rparr>
     ''disk %v'' [StrV ''full''] =
   Returned \<lparr>logLevel = InfoLevel, status = \<lparr>Flag = 1\<rparr>,
     channel = [\<lparr>level = DebugLevel, message = SliceV [SliceV [StrV ''full'']],
                 format = ''disk %v''\<rparr>],
     stopCh = False\<rparr>"
  using formatted_entries_are_tagged_Debug
    [of "\<lparr>logLevel = InfoLevel, status = \<lparr>Flag = 1\<rparr>, channel = [], stopCh = False\<rparr>"
        ErrorLevel "''disk %v''" "[StrV ''full'']"]
  by (simp add: isLoggable_def Get_def InfoLevel_def ErrorLevel_def)

section \<open>Properties of the flush\<close>

text \<open>
  C10. With an empty buffer (position 0) a flush returns 0 bytes and no error and changes
  nothing: the file system is not asked, nothing is written, buffer and position stay.
  The same holds for the flush made by a tick of the timer and for the locked flush of
  close, when the mutex is free.
\<close>

theorem save_empty_buffer_is_noop:
  "position w = 0 \<Longrightarrow>
     save e w = Returned (w, 0, None) \<and>
     (\<not> lock w \<longrightarrow> timerTick e w = Returned w \<and> save_locked e w = Returned w)"
  by (simp add: save_def timerTick_def save_locked_def)

theorem save_empty_buffer_is_noop_witness:
  "save env_ok (NewWorker []) = Returned (NewWorker [], 0, None) \<and>
   timerTick env_ok (NewWorker []) = Returned (NewWorker []) \<and>
   save_locked env_ok (NewWorker []) = Returned (NewWorker [])"
  using save_empty_buffer_is_noop [of "NewWorker []" env_ok]
  by (simp add: NewWorker_def)

text \<open>
  C6. A flush of a non-empty buffer at a moment when the file is missing writes nothing,
  calls the error callback exactly once, returns 0 bytes and no error, and leaves buffer
  and position as they were; only the count of callbacks and the count of questions to
  the file system move. The flush made by a tick of the timer and the locked flush of
  close do the same and add no second callback.
\<close>

theorem save_missing_file_keeps_buffer:
  "0 < position w \<Longrightarrow> answer e (asked w) = StatFails \<Longrightarrow>
     save e w =
       Returned (w\<lparr>asked := asked w + 1, errorCallback := errorCallback w + 1\<rparr>, 0, None) \<and>
     (\<not> lock w \<and> \<not> quitTimer w \<longrightarrow>
        timerTick e w =
          Returned (w\<lparr>asked := asked w + 1, errorCallback := errorCallback w + 1\<rparr>)) \<and>
     (\<not> lock w \<longrightarrow>
        save_locked e w =
          Returned (w\<lparr>asked := asked w + 1, errorCallback := errorCallback w + 1\<rparr>))"
  by (simp add: save_def timerTick_def save_locked_def call_errorCallback_def)

theorem save_missing_file_keeps_buffer_witness:
  "save env_missing ((NewWorker [])\<lparr>position := 5\<rparr>) =
     Returned ((NewWorker [])\<lparr>position := 5, asked := 1, errorCallback := 1\<rparr>, 0, None)"
  using save_missing_file_keeps_buffer [of "(NewWorker [])\<lparr>position := 5\<rparr>" env_missing]
  by (simp add: NewWorker_def env_missing_def env_with_def)

section \<open>Where the buffer's cursor leaves the buffer\<close>

lemma length_copy_at: "pos \<le> length b \<Longrightarrow> length (copy_at b pos data) = length b"
  by (simp add: copy_at_def)

text \<open>
  C1. The cursor does not stay within the capacity. On a fresh worker with a healthy file
  system, one append of 32769 bytes finds the buffer empty, so the flush before it has
  nothing to do, the copy is cut at the end of the buffer and the cursor is moved by the
  full length: position 32769. And with the file missing, an append of 10 bytes followed by
  one of 32760 bytes flushes in vain (the flush reports no error), copies what fits and
  leaves position 32770.
\<close>

theorem position_exceeds_capacity:
  "(case Write env_ok (NewWorker []) (replicate 32769 (CHR ''a'')) of
      Returned (w, n, err) \<Rightarrow> position w = 32769 \<and> capacity < position w \<and> err = None
    | Panic \<Rightarrow> False
    | Blocked \<Rightarrow> False) \<and>
   (case and_then (Write env_missing (NewWorker []) (replicate 10 (CHR ''a'')))
           (\<lambda>(w, n, err). Write env_missing w (replicate 32760 (CHR ''b''))) of
      Returned (w, n, err) \<Rightarrow> position w = 32770 \<and> capacity < position w \<and> err = None
    | Panic \<Rightarrow> False
    | Blocked \<Rightarrow> False)"
  by (simp add: Write_def save_def NewWorker_def capacity_def slice_ok_def env_ok_def
      env_missing_def env_with_def call_errorCallback_def length_copy_at)

text \<open>
  C2. Worker operations do panic. After the append of 32769 bytes the next tick of the
  timer takes \<^verbatim>\<open>w.buffer[0:32769]\<close> of a buffer of 32768 bytes: the flush's slice is out
  of bounds. With the file missing, the third append of the run 10 bytes, 32760 bytes,
  1 byte takes \<^verbatim>\<open>w.buffer[32770:]\<close> and panics as well.
\<close>

theorem flush_slice_out_of_bounds:
  "and_then (Write env_ok (NewWorker []) (replicate 32769 (CHR ''a'')))
     (\<lambda>(w, n, err). timerTick env_ok w) = Panic \<and>
   and_then (Write env_missing (NewWorker []) (replicate 10 (CHR ''a'')))
     (\<lambda>(w, n, err). and_then (Write env_missing w (replicate 32760 (CHR ''b'')))
        (\<lambda>(w, n, err). Write env_missing w ''c'')) = Panic"
  by (simp add: Write_def save_def NewWorker_def capacity_def slice_ok_def env_ok_def
      env_missing_def env_with_def call_errorCallback_def length_copy_at timerTick_def)

text \<open>
  C3. An append whose make-room flush fails because the file is missing does not fail:
  the flush calls the callback and returns no error, so the append goes on, writes into the
  buffer behind the 10 bytes that were not flushed, moves the cursor to 32770 and returns
  no error.
\<close>

theorem append_after_missing_file_flush_mutates:
  "(case and_then (Write env_missing (NewWorker []) (replicate 10 (CHR ''a'')))
           (\<lambda>(w, n, err). Write env_missing w (replicate 32760 (CHR ''b''))) of
      Returned (w, n, err) \<Rightarrow>
        err = None \<and> errorCallback w = 1 \<and> position w = 32770 \<and>
        buffer w ! 10 = CHR ''b'' \<and> fileRoot w = []
    | Panic \<Rightarrow> False
    | Blocked \<Rightarrow> False)"
  by (simp add: Write_def save_def NewWorker_def capacity_def slice_ok_def
      env_missing_def env_with_def call_errorCallback_def length_copy_at)
     (simp add: copy_at_def nth_append)

text \<open>
  What the flush itself does on a write error, whoever called it: the error is returned,
  position and buffer stay. The callback is left to the caller: the append and the timer
  call it.
\<close>

lemma save_write_error:
  "slice_ok (buffer w) 0 (position w) \<Longrightarrow> position w \<noteq> 0 \<Longrightarrow>
   answer e (asked w) = WriteFails k msg \<Longrightarrow>
   \<exists>w' n. save e w = Returned (w', n, Some msg) \<and> position w' = position w \<and>
          buffer w' = buffer w \<and> errorCallback w' = errorCallback w"
  by (simp add: save_def)

lemma timerTick_write_error:
  "slice_ok (buffer w) 0 (position w) \<Longrightarrow> position w \<noteq> 0 \<Longrightarrow>
   answer e (asked w) = WriteFails k msg \<Longrightarrow> \<not> lock w \<Longrightarrow> \<not> quitTimer w \<Longrightarrow>
   \<exists>w'. timerTick e w = Returned w' \<and> position w' = position w \<and>
        buffer w' = buffer w \<and> errorCallback w' = errorCallback w + 1"
  by (simp add: timerTick_def save_def call_errorCallback_def)

lemma Write_write_error:
  "slice_ok (buffer w) 0 (position w) \<Longrightarrow> position w \<noteq> 0 \<Longrightarrow>
   capacity < int (length data) + position w \<Longrightarrow>
   answer e (asked w) = WriteFails k msg \<Longrightarrow> \<not> lock w \<Longrightarrow>
   \<exists>w' n. Write e w data = Returned (w', n, Some msg) \<and> position w' = position w \<and>
          buffer w' = buffer w \<and> errorCallback w' = errorCallback w + 1 \<and> lock w'"
  by (simp add: Write_def save_def call_errorCallback_def)

text \<open>
  C5. The flushes of close drop the error of \<open>save\<close> and call no callback. A worker that
  holds the 5 bytes of one append is closed while every write fails: both flushes of close
  fail, close returns, the callback was never called, the file is empty and the 5 bytes
  are still in the buffer.
\<close>

theorem close_write_error_calls_no_callback:
  "(case and_then (Write env_full (NewWorker []) ''hello'')
           (\<lambda>(w, n, err). CloseWorker env_full w) of
      Returned w \<Rightarrow>
        errorCallback w = 0 \<and> asked w = 2 \<and> position w = 5 \<and> fileRoot w = [] \<and>
        take 5 (buffer w) = ''hello''
    | Panic \<Rightarrow> False
    | Blocked \<Rightarrow> False)"
  by (simp add: Write_def save_def NewWorker_def capacity_def slice_ok_def env_full_def
      env_with_def call_errorCallback_def length_copy_at CloseWorker_def save_locked_def)
     (simp add: copy_at_def)

section \<open>Properties of the rendering\<close>

lemma header_default:
  "formatHeader utc p defaultLogFlag t file line =
     p @ stamp t @ short file @ '':'' @ itoa line (- 1) @ '': ''"
  by (simp add: formatHeader_def defaultLogFlag_def LstdFlags_def Ldate_def Ltime_def
      Lmicroseconds_def Lshortfile_def Llongfile_def LUTC_def Lmsgprefix_def stamp_def)

lemma Output_default:
  "Output e w (p, defaultLogFlag) line s =
     and_then
       (Write e (w\<lparr>printed := printed w + 1\<rparr>)
          (p @ stamp (now e (printed w)) @ short (callerFile e) @ '':'' @
           itoa line (- 1) @ '': '' @ s @
           (if s = [] \<or> last s \<noteq> CHR 0x0A then [CHR 0x0A] else [])))
       (\<lambda>(w1, n, err). Returned w1)"
  by (simp add: Output_def line_bytes_def header_default)

lemma writeToBuffer_rendered:
  "level ev \<in> set AllLevels \<Longrightarrow>
   writeToBuffer e w ev =
     and_then (Write e (w\<lparr>printed := printed w + 1\<rparr>) (rendered e (printed w) ev))
       (\<lambda>(w1, n, err). Returned w1)"
  by (auto simp add: writeToBuffer_def Printf_def Println_def Info_def Warning_def Error_def
      Debug_def Output_default rendered_def severity_prefix_def call_line_def text_of_def
      AllLevels_def ErrorLevel_def WarnLevel_def InfoLevel_def DebugLevel_def)

lemma writeToBuffer_other_level:
  "level ev \<notin> set AllLevels \<Longrightarrow> writeToBuffer e w ev = Returned w"
  by (simp add: writeToBuffer_def AllLevels_def)

lemma take_copy_at:
  "pos \<le> length b \<Longrightarrow> take pos (copy_at b pos data) = take pos b"
  by (simp add: copy_at_def)

lemma copy_at_fits:
  "pos + length data \<le> length b \<Longrightarrow>
   take (pos + length data) (copy_at b pos data) = take pos b @ data"
  by (simp add: copy_at_def)

text \<open>
  What an append does when the bytes fit behind the cursor: no flush, the bytes are copied
  at the cursor and the cursor moves by their number.
\<close>

lemma Write_fits:
  assumes "\<not> lock w" "0 \<le> position w" "position w + int (length data) \<le> capacity"
    "int (length (buffer w)) = capacity"
  shows "Write e w data =
     Returned (w\<lparr>buffer := copy_at (buffer w) (nat (position w)) data,
                position := position w + int (length data), lock := False\<rparr>, 0, None)"
  using assms by (simp add: Write_def slice_ok_def add.commute)

text \<open>
  C8, as amended. For an entry of one of the four levels, the bytes that the worker hands
  to its buffer are the severity tag, the time stamp with microseconds and a blank, then
  the short name of the source file of the call, a colon, the line of the call, a colon
  and a blank, then the message as printed, and a newline unless the message already ends
  with one. When these bytes fit behind the cursor and the mutex is free, they are what
  the buffer holds from the old cursor to the new one.
\<close>

theorem entry_bytes_in_buffer:
  assumes "level ev \<in> set AllLevels"
  shows "writeToBuffer e w ev =
           and_then (Write e (w\<lparr>printed := printed w + 1\<rparr>) (rendered e (printed w) ev))
             (\<lambda>(w1, n, err). Returned w1) \<and>
         (\<not> lock w \<and> 0 \<le> position w \<and> int (length (buffer w)) = capacity \<and>
          position w + int (length (rendered e (printed w) ev)) \<le> capacity \<longrightarrow>
          (\<exists>w'. writeToBuffer e w ev = Returned w' \<and>
             position w' = position w + int (length (rendered e (printed w) ev)) \<and>
             take (nat (position w')) (buffer w') =
               take (nat (position w)) (buffer w) @ rendered e (printed w) ev))"
proof
  show first: "writeToBuffer e w ev =
           and_then (Write e (w\<lparr>printed := printed w + 1\<rparr>) (rendered e (printed w) ev))
             (\<lambda>(w1, n, err). Returned w1)"
    using assms by (rule writeToBuffer_rendered)
  show "\<not> lock w \<and> 0 \<le> position w \<and> int (length (buffer w)) = capacity \<and>
          position w + int (length (rendered e (printed w) ev)) \<le> capacity \<longrightarrow>
          (\<exists>w'. writeToBuffer e w ev = Returned w' \<and>
             position w' = position w + int (length (rendered e (printed w) ev)) \<and>
             take (nat (position w')) (buffer w') =
               take (nat (position w)) (buffer w) @ rendered e (printed w) ev)"
  proof
    assume room: "\<not> lock w \<and> 0 \<le> position w \<and> int (length (buffer w)) = capacity \<and>
          position w + int (length (rendered e (printed w) ev)) \<le> capacity"
    let ?d = "rendered e (printed w) ev"
    let ?v = "w\<lparr>printed := printed w + 1\<rparr>"
    have "Write e ?v ?d =
        Returned (?v\<lparr>buffer := copy_at (buffer ?v) (nat (position ?v)) ?d,
                     position := position ?v + int (length ?d), lock := False\<rparr>, 0, None)"
      using room by (intro Write_fits) simp_all
    moreover have "nat (position w + int (length ?d)) = nat (position w) + length ?d"
      using room by (simp add: nat_add_distrib)
    moreover have "nat (position w) + length ?d \<le> length (buffer w)"
      using room by linarith
    ultimately show "\<exists>w'. writeToBuffer e w ev = Returned w' \<and>
             position w' = position w + int (length ?d) \<and>
             take (nat (position w')) (buffer w') = take (nat (position w)) (buffer w) @ ?d"
      by (simp add: first copy_at_fits)
  qed
qed

theorem entry_bytes_in_buffer_witness:
  "(\<exists>w'. writeToBuffer env_ok (NewWorker []) (NewEntry InfoLevel (StrV ''hello'')) =
           Returned w' \<and> position w' = 56 \<and>
         take 56 (buffer w') =
           ''[INFO]  2020/01/02 03:04:05.000006 writer.go:145: hello'' @ [CHR 0x0A])"
proof -
  have r: "rendered env_ok 0 (NewEntry InfoLevel (StrV ''hello'')) =
      ''[INFO]  2020/01/02 03:04:05.000006 writer.go:145: hello'' @ [CHR 0x0A]"
    by (simp add: rendered_def severity_prefix_def stamp_def call_line_def text_of_def
        NewEntry_def env_ok_def env_with_def clock0_def InfoLevel_def WarnLevel_def
        short_def short_from.simps itoa.simps char_of_def bit_Suc_0_iff)
  have l: "level (NewEntry InfoLevel (StrV ''hello'')) \<in> set AllLevels"
    by (simp add: NewEntry_def AllLevels_def)
  have p: "printed (NewWorker []) = 0" "position (NewWorker []) = 0"
    "\<not> lock (NewWorker [])" "int (length (buffer (NewWorker []))) = capacity"
    by (simp_all add: NewWorker_def capacity_def)
  have room: "\<not> lock (NewWorker []) \<and> 0 \<le> position (NewWorker []) \<and>
      int (length (buffer (NewWorker []))) = capacity \<and>
      position (NewWorker []) +
        int (length (rendered env_ok (printed (NewWorker []))
                       (NewEntry InfoLevel (StrV ''hello'')))) \<le> capacity"
    by (simp add: p r) (simp add: capacity_def)
  from entry_bytes_in_buffer [OF l, THEN conjunct2, THEN mp, OF room]
  obtain w' where
    "writeToBuffer env_ok (NewWorker []) (NewEntry InfoLevel (StrV ''hello'')) = Returned w'"
    "position w' = position (NewWorker []) +
       int (length (rendered env_ok (printed (NewWorker []))
                      (NewEntry InfoLevel (StrV ''hello''))))"
    "take (nat (position w')) (buffer w') =
       take (nat (position (NewWorker []))) (buffer (NewWorker [])) @
       rendered env_ok (printed (NewWorker [])) (NewEntry InfoLevel (StrV ''hello''))"
    by blast
  then show ?thesis
    by (intro exI [of _ w']) (simp add: p r)
qed

text \<open>
  C8, as stated, fails: the line of an Info entry with the message "hello" has
  \<^verbatim>\<open>writer.go:145: \<close> between the time stamp and the message, so it is not the tag, the
  stamp, the message and a newline, whether the message is taken as given or as printed by
  \<^verbatim>\<open>Println\<close>.
\<close>

theorem entry_bytes_not_as_claimed:
  "(case writeToBuffer env_ok (NewWorker []) (NewEntry InfoLevel (StrV ''hello'')) of
      Returned w \<Rightarrow>
        take (nat (position w)) (buffer w) =
          ''[INFO]  2020/01/02 03:04:05.000006 writer.go:145: hello'' @ [CHR 0x0A] \<and>
        take (nat (position w)) (buffer w) \<noteq> claimed_line InfoLevel clock0 ''hello'' \<and>
        take (nat (position w)) (buffer w) \<noteq>
          claimed_line InfoLevel clock0 (Sprintln env_ok [StrV ''hello''])
    | Panic \<Rightarrow> False
    | Blocked \<Rightarrow> False)"
proof -
  have r: "rendered env_ok 0 (NewEntry InfoLevel (StrV ''hello'')) =
      ''[INFO]  2020/01/02 03:04:05.000006 writer.go:145: hello'' @ [CHR 0x0A]"
    by (simp add: rendered_def severity_prefix_def stamp_def call_line_def text_of_def
        NewEntry_def env_ok_def env_with_def clock0_def InfoLevel_def WarnLevel_def
        short_def short_from.simps itoa.simps char_of_def bit_Suc_0_iff)
  have c: "claimed_line InfoLevel clock0 msg =
      ''[INFO]  2020/01/02 03:04:05.000006 '' @ msg @ [CHR 0x0A]" for msg
    by (simp add: claimed_line_def severity_prefix_def stamp_def clock0_def
        itoa.simps char_of_def bit_Suc_0_iff)
  have w: "writeToBuffer env_ok (NewWorker []) (NewEntry InfoLevel (StrV ''hello'')) =
      and_then (Write env_ok ((NewWorker [])\<lparr>printed := 1\<rparr>)
         (''[INFO]  2020/01/02 03:04:05.000006 writer.go:145: hello'' @ [CHR 0x0A]))
        (\<lambda>(w1, n, err). Returned w1)"
    using writeToBuffer_rendered
      [of "NewEntry InfoLevel (StrV ''hello'')" env_ok "NewWorker []"] r
    by (simp add: NewEntry_def AllLevels_def NewWorker_def)
  show ?thesis
    unfolding w c
    by (simp add: Write_def NewWorker_def capacity_def slice_ok_def copy_at_def
        env_ok_def env_with_def)
qed

section \<open>Properties of close\<close>

lemma save_healthy:
  assumes "\<And>i. answer e i = WriteSucceeds"
  shows "save e w =
     (if position w = 0 then Returned (w, 0, None)
      else if slice_ok (buffer w) 0 (position w)
      then Returned
             (w\<lparr>asked := asked w + 1,
                fileRoot := fileRoot w @ take (nat (position w)) (buffer w),
                position := 0\<rparr>, position w, None)
      else Panic)"
  by (simp add: save_def assms)

lemma save_locked_healthy:
  assumes ok: "\<And>i. answer e i = WriteSucceeds"
    and u: "unlocked_full_size w"
    and r: "save_locked e w = Returned w'"
  shows "in_range w \<and> position w' = 0 \<and> fileRoot w' = pending w \<and>
         Worker.channel w' = Worker.channel w \<and> printed w' = printed w \<and>
         unlocked_full_size w'"
  using u r
  by (auto simp add: save_locked_def save_healthy [OF ok] unlocked_full_size_def
      in_range_def pending_def slice_ok_def split: if_splits)

lemma save_locked_returns:
  assumes ok: "\<And>i. answer e i = WriteSucceeds"
    and u: "unlocked_full_size w" and g: "in_range w"
  shows "\<exists>w'. save_locked e w = Returned w'"
  using u g
  by (simp add: save_locked_def save_healthy [OF ok] unlocked_full_size_def
      in_range_def slice_ok_def)

lemma Write_healthy:
  assumes ok: "\<And>i. answer e i = WriteSucceeds"
    and u: "unlocked_full_size w"
    and r: "Write e w d = Returned (w', n, err)"
  shows "unlocked_full_size w' \<and> Worker.channel w' = Worker.channel w \<and>
         printed w' = printed w \<and>
         (in_range w' \<longrightarrow> in_range w \<and> pending w' = pending w @ d)"
proof (cases "capacity < int (length d) + position w")
  case True
  show ?thesis
  proof (cases "position w = 0")
    case True
    with \<open>capacity < int (length d) + position w\<close> u r show ?thesis
      by (auto simp add: Write_def save_healthy [OF ok] unlocked_full_size_def
          in_range_def pending_def slice_ok_def length_copy_at copy_at_def
          split: if_splits)
  next
    case False
    with \<open>capacity < int (length d) + position w\<close> u r show ?thesis
      by (auto simp add: Write_def save_healthy [OF ok] unlocked_full_size_def
          in_range_def pending_def slice_ok_def length_copy_at copy_at_def
          split: if_splits)
  qed
next
  case False
  with u r have p: "0 \<le> position w" "position w \<le> capacity"
    by (auto simp add: Write_def unlocked_full_size_def slice_ok_def split: if_splits)
  have n: "nat (position w + int (length d)) = nat (position w) + length d"
    using p by (simp add: nat_add_distrib)
  have f: "nat (position w) + length d \<le> length (buffer w)"
    using p False u by (simp add: unlocked_full_size_def) linarith
  from False u r p show ?thesis
    by (auto simp add: Write_def unlocked_full_size_def in_range_def pending_def
        slice_ok_def length_copy_at n copy_at_fits [OF f] split: if_splits)
qed

lemma Write_returns:
  assumes ok: "\<And>i. answer e i = WriteSucceeds"
    and u: "unlocked_full_size w" and g: "in_range w"
    and d: "int (length d) \<le> capacity"
  shows "\<exists>w' n err. Write e w d = Returned (w', n, err) \<and> in_range w'"
proof (cases "capacity < int (length d) + position w")
  case True
  with u g d show ?thesis
    by (cases "position w = 0")
       (simp_all add: Write_def Let_def save_healthy [OF ok] unlocked_full_size_def
          in_range_def slice_ok_def)
next
  case False
  with u g d show ?thesis
    by (simp add: Write_def Let_def unlocked_full_size_def in_range_def slice_ok_def)
qed

lemma writeToBuffer_healthy:
  assumes ok: "\<And>i. answer e i = WriteSucceeds"
    and u: "unlocked_full_size w"
    and r: "writeToBuffer e w ev = Returned w'"
  shows "unlocked_full_size w' \<and> Worker.channel w' = Worker.channel w \<and>
         printed w' = printed w + (if level ev \<in> set AllLevels then 1 else 0) \<and>
         (in_range w' \<longrightarrow>
            in_range w \<and> pending w' = pending w @ concat (lines_of e (printed w) [ev]))"
proof (cases "level ev \<in> set AllLevels")
  case False
  with r show ?thesis
    using u by (simp add: writeToBuffer_other_level)
next
  case True
  let ?v = "w\<lparr>printed := printed w + 1\<rparr>"
  from r True obtain n err where
    w: "Write e ?v (rendered e (printed w) ev) = Returned (w', n, err)"
    by (cases "Write e ?v (rendered e (printed w) ev)")
       (auto simp add: writeToBuffer_rendered)
  have "unlocked_full_size ?v"
    using u by (simp add: unlocked_full_size_def)
  from Write_healthy [OF ok this w] True show ?thesis
    by (simp add: in_range_def pending_def)
qed

lemma writeToBuffer_returns:
  assumes ok: "\<And>i. answer e i = WriteSucceeds"
    and u: "unlocked_full_size w" and g: "in_range w"
    and d: "\<forall>b \<in> set (lines_of e (printed w) [ev]). int (length b) \<le> capacity"
  shows "\<exists>w'. writeToBuffer e w ev = Returned w' \<and> in_range w'"
proof (cases "level ev \<in> set AllLevels")
  case False
  then show ?thesis
    using g by (simp add: writeToBuffer_other_level)
next
  case True
  let ?v = "w\<lparr>printed := printed w + 1\<rparr>"
  have "unlocked_full_size ?v" "in_range ?v"
    using u g by (simp_all add: unlocked_full_size_def in_range_def)
  moreover have "int (length (rendered e (printed w) ev)) \<le> capacity"
    using d True by simp
  ultimately obtain w' n err where
    "Write e ?v (rendered e (printed w) ev) = Returned (w', n, err)" "in_range w'"
    using Write_returns [OF ok] by blast
  then show ?thesis
    using True by (simp add: writeToBuffer_rendered)
qed

lemma drain_healthy:
  assumes ok: "\<And>i. answer e i = WriteSucceeds"
  shows "unlocked_full_size w \<Longrightarrow> drain e w n = Returned w' \<Longrightarrow>
     unlocked_full_size w' \<and> Worker.channel w' = drop n (Worker.channel w) \<and>
     n \<le> length (Worker.channel w) \<and>
     (in_range w' \<longrightarrow>
        in_range w \<and>
        pending w' =
          pending w @ concat (lines_of e (printed w) (take n (Worker.channel w))))"
proof (induction n arbitrary: w)
  case 0
  then show ?case by simp
next
  case (Suc n)
  from Suc.prems(2) obtain ev rest where c: "Worker.channel w = ev # rest"
    by (cases "Worker.channel w") auto
  let ?v = "w\<lparr>Worker.channel := rest\<rparr>"
  from Suc.prems(2) c obtain w1 where
    s: "writeToBuffer e ?v ev = Returned w1" and t: "drain e w1 n = Returned w'"
    by (cases "writeToBuffer e ?v ev") auto
  have uv: "unlocked_full_size ?v"
    using Suc.prems(1) by (simp add: unlocked_full_size_def)
  note h = writeToBuffer_healthy [OF ok uv s]
  from h have u1: "unlocked_full_size w1" by simp
  note i = Suc.IH [OF u1 t]
  have v: "in_range ?v = in_range w" "pending ?v = pending w" "printed ?v = printed w"
    by (simp_all add: in_range_def pending_def)
  show ?case
  proof (intro conjI impI)
    show "unlocked_full_size w'" using i by simp
    show "Worker.channel w' = drop (Suc n) (Worker.channel w)"
      using i h c by simp
    show "Suc n \<le> length (Worker.channel w)"
      using i h c by simp
  next
    assume g: "in_range w'"
    with i have g1: "in_range w1" by simp
    with h v show "in_range w" by simp
    from i g have "pending w' =
        pending w1 @ concat (lines_of e (printed w1) (take n (Worker.channel w1)))"
      by simp
    moreover from h g1 v have
      "pending w1 = pending w @ concat (lines_of e (printed w) [ev])"
      by simp
    ultimately show "pending w' =
        pending w @ concat (lines_of e (printed w) (take (Suc n) (Worker.channel w)))"
      using h c by simp
  qed
qed

lemma drain_returns:
  assumes ok: "\<And>i. answer e i = WriteSucceeds"
  shows "unlocked_full_size w \<Longrightarrow> in_range w \<Longrightarrow> n \<le> length (Worker.channel w) \<Longrightarrow>
     \<forall>b \<in> set (lines_of e (printed w) (take n (Worker.channel w))).
        int (length b) \<le> capacity \<Longrightarrow>
     \<exists>w'. drain e w n = Returned w' \<and> in_range w'"
proof (induction n arbitrary: w)
  case 0
  then show ?case by simp
next
  case (Suc n)
  from Suc.prems(3) obtain ev rest where c: "Worker.channel w = ev # rest"
    by (cases "Worker.channel w") auto
  let ?v = "w\<lparr>Worker.channel := rest\<rparr>"
  have uv: "unlocked_full_size ?v" and gv: "in_range ?v"
    using Suc.prems(1,2) by (simp_all add: unlocked_full_size_def in_range_def)
  have dv: "\<forall>b \<in> set (lines_of e (printed ?v) [ev]). int (length b) \<le> capacity"
    using Suc.prems(4) c by (simp split: if_splits)
  from writeToBuffer_returns [OF ok uv gv dv] obtain w1 where
    s: "writeToBuffer e ?v ev = Returned w1" and g1: "in_range w1"
    by blast
  note h = writeToBuffer_healthy [OF ok uv s]
  have "\<exists>w'. drain e w1 n = Returned w' \<and> in_range w'"
  proof (rule Suc.IH)
    show "unlocked_full_size w1" using h by simp
    show "in_range w1" by (rule g1)
    show "n \<le> length (Worker.channel w1)" using h Suc.prems(3) c by simp
    show "\<forall>b \<in> set (lines_of e (printed w1) (take n (Worker.channel w1))).
        int (length b) \<le> capacity"
      using h Suc.prems(4) c by (simp split: if_splits)
  qed
  then show ?case
    using c s by simp
qed

text \<open>
  What close does achieve. Take a worker that is not yet closed, with the mutex free and
  its buffer of full size, and let every write to the file succeed. Whenever close
  returns, the cursor is 0, the queue is empty, and the file holds what it held before,
  then the bytes that were buffered, then the line of every queued entry whose level is
  one of the four, in the order of the queue. And close does return when the cursor starts
  within the capacity and no line is longer than the capacity.
\<close>

lemma close_writes_every_renderable_entry:
  assumes ok: "\<forall>i. answer e i = WriteSucceeds"
    and fresh: "\<not> once w" "\<not> lock w" "int (length (buffer w)) = capacity"
  shows "(\<forall>w'. CloseWorker e w = Returned w' \<longrightarrow>
            position w' = 0 \<and> Worker.channel w' = [] \<and>
            fileRoot w' =
              fileRoot w @ take (nat (position w)) (buffer w) @
              concat (lines_of e (printed w) (Worker.channel w))) \<and>
         (0 \<le> position w \<and> position w \<le> capacity \<and>
          (\<forall>b \<in> set (lines_of e (printed w) (Worker.channel w)).
             int (length b) \<le> capacity) \<longrightarrow>
          (\<exists>w'. CloseWorker e w = Returned w'))"
proof -
  have ok': "\<And>i. answer e i = WriteSucceeds"
    using ok by simp
  let ?v = "w\<lparr>once := True, doneCh := True, quitTimer := True\<rparr>"
  have uv: "unlocked_full_size ?v"
    using fresh by (simp add: unlocked_full_size_def)
  have v: "pending ?v = pending w" "Worker.channel ?v = Worker.channel w"
    "printed ?v = printed w" "in_range ?v = in_range w"
    by (simp_all add: pending_def in_range_def)
  have cl: "CloseWorker e w =
      and_then (save_locked e ?v)
        (\<lambda>w1. and_then (drain e w1 (length (Worker.channel w1))) (\<lambda>w2. save_locked e w2))"
    using fresh by (simp add: CloseWorker_def)
  have a: "position w' = 0 \<and> Worker.channel w' = [] \<and>
      fileRoot w' =
        fileRoot w @ take (nat (position w)) (buffer w) @
        concat (lines_of e (printed w) (Worker.channel w))"
    if r: "CloseWorker e w = Returned w'" for w'
  proof -
    from r cl obtain w1 where
      s1: "save_locked e ?v = Returned w1" and
      r1: "and_then (drain e w1 (length (Worker.channel w1))) (\<lambda>w2. save_locked e w2) =
             Returned w'"
      by (cases "save_locked e ?v") auto
    from r1 obtain w2 where
      s2: "drain e w1 (length (Worker.channel w1)) = Returned w2" and
      s3: "save_locked e w2 = Returned w'"
      by (cases "drain e w1 (length (Worker.channel w1))") auto
    note h1 = save_locked_healthy [OF ok' uv s1]
    from h1 have u1: "unlocked_full_size w1" by simp
    note h2 = drain_healthy [OF ok' u1 s2]
    from h2 have u2: "unlocked_full_size w2" by simp
    note h3 = save_locked_healthy [OF ok' u2 s3]
    have p1: "pending w1 = pending w"
      using h1 v by (simp add: pending_def)
    from h3 have "in_range w2" by simp
    with h2 h1 v p1 have "pending w2 =
        pending w @ concat (lines_of e (printed w) (Worker.channel w))"
      by simp
    with h3 h2 show ?thesis
      by (simp add: pending_def)
  qed
  have b: "\<exists>w'. CloseWorker e w = Returned w'"
    if g: "0 \<le> position w \<and> position w \<le> capacity \<and>
          (\<forall>b \<in> set (lines_of e (printed w) (Worker.channel w)).
             int (length b) \<le> capacity)"
  proof -
    have gv: "in_range ?v"
      using g by (simp add: in_range_def)
    from save_locked_returns [OF ok' uv gv] obtain w1 where
      s1: "save_locked e ?v = Returned w1" by blast
    note h1 = save_locked_healthy [OF ok' uv s1]
    from h1 have u1: "unlocked_full_size w1" by simp
    have g1: "in_range w1"
      using h1 by (simp add: in_range_def capacity_def)
    have "\<exists>w2. drain e w1 (length (Worker.channel w1)) = Returned w2 \<and> in_range w2"
    proof (rule drain_returns [OF ok' u1 g1])
      show "length (Worker.channel w1) \<le> length (Worker.channel w1)" by simp
      show "\<forall>b \<in> set (lines_of e (printed w1)
                (take (length (Worker.channel w1)) (Worker.channel w1))).
              int (length b) \<le> capacity"
        using g h1 v by simp
    qed
    then obtain w2 where
      s2: "drain e w1 (length (Worker.channel w1)) = Returned w2" and g2: "in_range w2"
      by blast
    from drain_healthy [OF ok' u1 s2] have u2: "unlocked_full_size w2" by simp
    from save_locked_returns [OF ok' u2 g2] obtain w' where
      "save_locked e w2 = Returned w'" by blast
    with s1 s2 cl show ?thesis by simp
  qed
  from a b show ?thesis by blast
qed

lemma close_writes_every_renderable_entry_example:
  "\<exists>w'. CloseWorker env_ok
          ((NewWorker [NewEntry InfoLevel (StrV ''up''), NewEntry 7 (StrV ''lost''),
                       NewFormattedEntry ErrorLevel ''%v'' (StrV ''down'')])
             \<lparr>buffer := ''old'' @ replicate 32765 (CHR 0x00), position := 3\<rparr>) =
          Returned w' \<and>
        position w' = 0 \<and>
        fileRoot w' =
          ''old'' @
          ''[INFO]  2020/01/02 03:04:05.000006 writer.go:145: up'' @ [CHR 0x0A] @
          ''[ERROR] 2020/01/02 03:04:05.000006 writer.go:155: down'' @ [CHR 0x0A]"
proof -
  let ?q = "[NewEntry InfoLevel (StrV ''up''), NewEntry 7 (StrV ''lost''),
             NewFormattedEntry ErrorLevel ''%v'' (StrV ''down'')]"
  let ?w = "(NewWorker ?q)\<lparr>buffer := ''old'' @ replicate 32765 (CHR 0x00), position := 3\<rparr>"
  have l: "lines_of env_ok 0 ?q =
      [''[INFO]  2020/01/02 03:04:05.000006 writer.go:145: up'' @ [CHR 0x0A],
       ''[ERROR] 2020/01/02 03:04:05.000006 writer.go:155: down'' @ [CHR 0x0A]]"
    by (simp add: rendered_def severity_prefix_def stamp_def call_line_def text_of_def
        NewEntry_def NewFormattedEntry_def env_ok_def env_with_def clock0_def AllLevels_def
        InfoLevel_def WarnLevel_def ErrorLevel_def DebugLevel_def
        short_def short_from.simps itoa.simps char_of_def bit_Suc_0_iff)
  have p: "\<forall>i. answer env_ok i = WriteSucceeds" "\<not> once ?w" "\<not> lock ?w"
    "int (length (buffer ?w)) = capacity" "printed ?w = 0" "position ?w = 3"
    "Worker.channel ?w = ?q" "fileRoot ?w = []"
    "take 3 (buffer ?w) = ''old''"
    by (simp_all add: NewWorker_def env_ok_def env_with_def capacity_def)
  note t = close_writes_every_renderable_entry [OF p(1-4)]
  have g: "0 \<le> position ?w \<and> position ?w \<le> capacity \<and>
      (\<forall>b \<in> set (lines_of env_ok (printed ?w) (Worker.channel ?w)).
         int (length b) \<le> capacity)"
    by (simp only: p l) (simp add: capacity_def)
  have "\<exists>w'. CloseWorker env_ok ?w = Returned w'"
    by (rule t [THEN conjunct2, THEN mp, OF g])
  then obtain w' where r: "CloseWorker env_ok ?w = Returned w'" by blast
  with t [THEN conjunct1] have "position w' = 0 \<and> fileRoot w' =
      fileRoot ?w @ take (nat (position ?w)) (buffer ?w) @
      concat (lines_of env_ok (printed ?w) (Worker.channel ?w))"
    by blast
  then have "position w' = 0 \<and> fileRoot w' =
      ''old'' @
      ''[INFO]  2020/01/02 03:04:05.000006 writer.go:145: up'' @ [CHR 0x0A] @
      ''[ERROR] 2020/01/02 03:04:05.000006 writer.go:155: down'' @ [CHR 0x0A]"
    by (simp only: p l) simp
  with r show ?thesis by blast
qed

text \<open>
  An entry whose level is none of the four is in the queue when close begins: every write
  succeeds, close returns with the cursor at 0 and the queue empty, and the file is empty.
\<close>

lemma close_drops_entry_of_unknown_level:
  "(case CloseWorker env_ok (NewWorker [NewEntry 7 (StrV ''lost'')]) of
      Returned w \<Rightarrow> position w = 0 \<and> Worker.channel w = [] \<and> fileRoot w = []
    | Panic \<Rightarrow> False
    | Blocked \<Rightarrow> False)"
  by (simp add: CloseWorker_def save_locked_def save_def NewWorker_def writeToBuffer_def
      NewEntry_def ErrorLevel_def WarnLevel_def InfoLevel_def DebugLevel_def)

text \<open>
  C4. Close does not always come back with the queued entries in the file, although no
  write to the file fails while it runs. First run: a fresh worker, one Info entry in the
  queue whose message has 32768 bytes, a healthy file system. The line is longer than the
  buffer; the append cuts the copy, moves the cursor to 32819, and the final flush of
  close takes \<^verbatim>\<open>w.buffer[0:32819]\<close> and panics: nothing reaches the file. Second
  run: the first write to the file fails and every later one succeeds. An append of 10
  bytes, then an append of 32760 bytes whose make-room flush gets the failing write and
  returns with the mutex still locked; then close, during which nothing fails, blocks on
  the mutex at its first flush and never writes the Info entry that waits in the queue.
\<close>

theorem close_panics_or_hangs:
  "CloseWorker env_ok
     (NewWorker [NewEntry InfoLevel (StrV (replicate 32768 (CHR ''a'')))]) = Panic \<and>
   and_then
     (Write env_first_write_fails (NewWorker [NewEntry InfoLevel (StrV ''up'')])
        (replicate 10 (CHR ''a'')))
     (\<lambda>(w, n, err).
        and_then (Write env_first_write_fails w (replicate 32760 (CHR ''b'')))
          (\<lambda>(w, n, err). CloseWorker env_first_write_fails w)) = Blocked"
proof
  let ?ev = "NewEntry InfoLevel (StrV (replicate 32768 (CHR ''a'')))"
  have l: "level ?ev \<in> set AllLevels"
    by (simp add: NewEntry_def AllLevels_def)
  have n: "length (rendered env_ok 0 ?ev) = 32819"
    by (simp add: rendered_def severity_prefix_def stamp_def call_line_def text_of_def
        NewEntry_def env_ok_def env_with_def clock0_def InfoLevel_def WarnLevel_def
        short_def short_from.simps itoa.simps char_of_def bit_Suc_0_iff)
  have ans: "answer env_ok i = WriteSucceeds" for i
    by (simp add: env_ok_def env_with_def)
  show "CloseWorker env_ok (NewWorker [?ev]) = Panic"
    by (simp add: CloseWorker_def save_locked_def save_def NewWorker_def ans
        writeToBuffer_rendered [OF l] Write_def capacity_def slice_ok_def n length_copy_at)
next
  show "and_then
     (Write env_first_write_fails (NewWorker [NewEntry InfoLevel (StrV ''up'')])
        (replicate 10 (CHR ''a'')))
     (\<lambda>(w, n, err).
        and_then (Write env_first_write_fails w (replicate 32760 (CHR ''b'')))
          (\<lambda>(w, n, err). CloseWorker env_first_write_fails w)) = Blocked"
    by (simp add: Write_def save_def NewWorker_def capacity_def slice_ok_def
        env_first_write_fails_def env_with_def call_errorCallback_def length_copy_at
        CloseWorker_def save_locked_def)
qed

end
